theory Spec2Isabelle
  imports Complex_Main "HOL-Library.Word"
begin

section \<open>Python values\<close>

text \<open>
  A Python \<open>str\<close> is a sequence of Unicode code points, a \<open>bytes\<close> object a sequence of
  octets. Comparing two one-character strings (\<open>"a" <= ch\<close>) compares their code points,
  and \<open>ord\<close> is the identity on this representation.
\<close>

type_synonym str = "nat list"
type_synonym bytes = "8 word list"

definition py :: "string \<Rightarrow> str" where
  "py s = map of_char s"

text \<open>
  The exceptions that occur in \<open>app.py\<close>. All of them are subclasses of \<open>Exception\<close>, so
  \<open>except Exception\<close> catches each one; \<open>except OSError\<close> catches the first only.
  The argument is the message, \<open>str(e)\<close>.
\<close>

datatype exn = OSError str | IndexError str | Exception str

fun message :: "exn \<Rightarrow> str" where
  "message (OSError m) = m"
| "message (IndexError m) = m"
| "message (Exception m) = m"

definition try_except :: "exn + 'a \<Rightarrow> (exn \<Rightarrow> exn + 'a) \<Rightarrow> exn + 'a" where
  "try_except body handler = (case body of Inl e \<Rightarrow> handler e | Inr v \<Rightarrow> Inr v)"

text \<open>
  \<open>str.strip()\<close> without argument removes leading and trailing whitespace, where
  whitespace is what \<open>str.isspace\<close> accepts.
\<close>

definition isspace :: "nat \<Rightarrow> bool" where
  "isspace c \<longleftrightarrow>
     (0x09 \<le> c \<and> c \<le> 0x0D) \<or> (0x1C \<le> c \<and> c \<le> 0x20) \<or> c = 0x85 \<or> c = 0xA0 \<or>
     c = 0x1680 \<or> (0x2000 \<le> c \<and> c \<le> 0x200A) \<or> c = 0x2028 \<or> c = 0x2029 \<or>
     c = 0x202F \<or> c = 0x205F \<or> c = 0x3000"

definition strip :: "str \<Rightarrow> str" where
  "strip s = rev (dropWhile isspace (rev (dropWhile isspace s)))"

section \<open>External collaborators\<close>

text \<open>
  The requests the program sends. A chat response is reduced to what the program reads
  of it: the list \<open>resp.choices\<close>, each element standing for its \<open>message.content\<close>,
  which may be \<open>None\<close>.
\<close>

record chat_message =
  role :: str
  content :: str

record chat_request =
  model :: str
  messages :: "chat_message list"
  temperature :: rat

type_synonym chat_response = "str option list"

record stt_request =
  stt_model :: str
  stt_file :: bytes
  stt_language :: "str option"

record tts_request =
  speech_model :: str
  speech_voice :: str
  speech_input :: str

type_synonym path = nat
type_synonym segment = bytes

text \<open>
  The behaviour of everything outside \<open>app.py\<close> during one run of a function: the
  statistical identifier \<open>langdetect.detect\<close>, the three remote endpoints of the client,
  the two \<open>pydub\<close> steps of the re-encoding, and the file system: whether
  \<open>tempfile.NamedTemporaryFile\<close> fails to create the file, whether writing the bytes to
  it fails (and then how many of them had reached the file), and whether \<open>os.remove\<close>
  fails on a path, each with the message of its \<open>OSError\<close>. Each call either raises or
  returns.
\<close>

record env =
  detect :: "str \<Rightarrow> exn + str"
  chat_completions_create :: "chat_request \<Rightarrow> exn + chat_response"
  audio_transcriptions_create :: "stt_request \<Rightarrow> exn + str"
  audio_speech_create :: "tts_request \<Rightarrow> exn + bytes"
  from_file :: "bytes \<Rightarrow> exn + segment"
  export :: "segment \<Rightarrow> exn + bytes"
  os_remove_error :: "path \<Rightarrow> str option"
  tmp_create_error :: "str option"
  tmp_write_error :: "bytes \<Rightarrow> (str \<times> nat) option"

text \<open>
  What the program changes: the calls it has issued to the identifier and to the remote
  endpoints, in order; the files of the temporary directory; and the conversation
  history \<open>st.session_state.chat\<close>, absent until conversation mode has run once.
  The keys \<open>"src"\<close> and \<open>"dst"\<close> of a turn are the fields \<open>turn_src\<close> and \<open>turn_dst\<close>.
\<close>

datatype event =
  Detect str
| ChatCompletion chat_request
| Transcription stt_request
| Speech tts_request

record turn =
  turn_speaker :: str
  turn_transcript :: str
  turn_translation :: str
  turn_src :: str
  turn_dst :: str

type_synonym filesystem = "(path \<times> bytes) list"

record world =
  trace :: "event list"
  files :: filesystem
  chat :: "turn list option"

text \<open>
  \<open>tempfile.NamedTemporaryFile\<close> creates a file under a name that no existing file has;
  the model takes the least number above all names in use.
\<close>

fun max_path :: "filesystem \<Rightarrow> path" where
  "max_path [] = 0"
| "max_path ((p, b) # fs) = max p (max_path fs)"

definition fresh_path :: "filesystem \<Rightarrow> path" where
  "fresh_path fs = Suc (max_path fs)"

definition os_remove :: "env \<Rightarrow> path \<Rightarrow> world \<Rightarrow> exn + world" where
  "os_remove env p w =
     (case os_remove_error env p of
        Some m \<Rightarrow> Inl (OSError m)
      | None \<Rightarrow>
          (if p \<in> fst ` set (files w)
           then Inr (w\<lparr>files := filter (\<lambda>(q, b). q \<noteq> p) (files w)\<rparr>)
           else Inl (OSError (py ''No such file or directory''))))"

section \<open>Constants of the program\<close>

definition STT_MODEL :: str where
  "STT_MODEL = py ''gpt-4o-mini-transcribe''"

definition TTS_MODEL :: str where
  "TTS_MODEL = py ''gpt-4o-mini-tts''"

definition LLM_MODEL :: str where
  "LLM_MODEL = py ''gpt-4o-mini''"

text \<open>The five adjacent literals of \<open>system_prompt\<close>, concatenated, as code points.\<close>

definition system_prompt :: str where
  "system_prompt =
    [0x3042, 0x306a, 0x305f, 0x306f, 0x30d7, 0x30ed, 0x306e, 0x7ffb, 0x8a33, 0x8005, 0x3067,
     0x3059, 0x3002, 0x6587, 0x7ae0, 0x3092, 0x7c21, 0x6f54, 0x304b, 0x3064, 0x81ea, 0x7136,
     0x306b, 0x7ffb, 0x8a33, 0x3057, 0x3066, 0x304f, 0x3060, 0x3055, 0x3044, 0x3002] @
    [0x2d, 0x20, 0x30bd, 0x30fc, 0x30b9, 0x8a00, 0x8a9e, 0x3a, 0x20, 0x27, 0x76, 0x69, 0x27,
     0x3d, 0x30d9, 0x30c8, 0x30ca, 0x30e0, 0x8a9e, 0x2c, 0x20, 0x27, 0x6a, 0x61, 0x27, 0x3d,
     0x65e5, 0x672c, 0x8a9e] @
    [0x2d, 0x20, 0x30bf, 0x30fc, 0x30b2, 0x30c3, 0x30c8, 0x8a00, 0x8a9e, 0x3a, 0x20, 0x27,
     0x6a, 0x61, 0x27, 0x3d, 0x65e5, 0x672c, 0x8a9e, 0x2c, 0x20, 0x27, 0x76, 0x69, 0x27, 0x3d,
     0x30d9, 0x30c8, 0x30ca, 0x30e0, 0x8a9e] @
    [0x2d, 0x20, 0x6570, 0x5b57, 0x3084, 0x540d, 0x524d, 0x306f, 0x305d, 0x306e, 0x307e,
     0x307e, 0x4fdd, 0x6301] @
    [0x2d, 0x20, 0x8aac, 0x660e, 0x306f, 0x8ffd, 0x52a0, 0x305b, 0x305a, 0x7ffb, 0x8a33,
     0x6587, 0x306e, 0x307f, 0x51fa, 0x529b]"

section \<open>Language detection\<close>

text \<open>
  The test of the generator in \<open>detect_lang_simple\<close>: \<open>ch\<close> lies between U+3040 and
  U+30FF (hiragana and katakana) or between U+4E00 and U+9FFF (CJK unified ideographs).
\<close>

definition kana_or_cjk :: "nat \<Rightarrow> bool" where
  "kana_or_cjk ch \<longleftrightarrow> (0x3040 \<le> ch \<and> ch \<le> 0x30FF) \<or> (0x4E00 \<le> ch \<and> ch \<le> 0x9FFF)"

definition detect_lang_simple :: "env \<Rightarrow> str \<Rightarrow> world \<Rightarrow> str \<times> world" where
  "detect_lang_simple env text w =
     (if list_ex kana_or_cjk text then (py ''ja'', w)
      else
        let w' = w\<lparr>trace := trace w @ [Detect text]\<rparr>;
            fallback = (if list_all (\<lambda>c. c < 128) text then py ''vi'' else py ''ja'')
        in (case detect env text of
              Inr lang \<Rightarrow>
                (if lang = py ''ja'' \<or> lang = py ''vi'' then (lang, w') else (fallback, w'))
            | Inl e \<Rightarrow> (fallback, w')))"

section \<open>Translation\<close>

text \<open>
  The first statement of \<open>translate_text\<close>: the source language after \<open>"auto"\<close> has
  been resolved by the detector.
\<close>

definition resolve_src :: "env \<Rightarrow> str \<Rightarrow> str \<Rightarrow> world \<Rightarrow> str \<times> world" where
  "resolve_src env text src w =
     (if src = py ''auto''
      then (let (detected, w1) = detect_lang_simple env text w
            in (if detected = py ''vi'' \<or> detected = py ''ja'' then detected else py ''vi'', w1))
      else (src, w))"

text \<open>
  The arguments of \<open>client.chat.completions.create\<close>: the model, the system and user
  messages (the user message is the f-string with the two tags, a newline and the text)
  and the temperature.
\<close>

definition translation_request :: "str \<Rightarrow> str \<Rightarrow> str \<Rightarrow> chat_request" where
  "translation_request text src dst =
     \<lparr>model = LLM_MODEL,
      messages =
        [\<lparr>role = py ''system'', content = system_prompt\<rparr>,
         \<lparr>role = py ''user'',
          content = py ''[SRC='' @ src @ py ''] [DST='' @ dst @ py '']'' @ [10] @ text\<rparr>],
      temperature = 2 / 10\<rparr>"

definition translate_text :: "env \<Rightarrow> str \<Rightarrow> str \<Rightarrow> str \<Rightarrow> world \<Rightarrow> (exn + str) \<times> world" where
  "translate_text env text src dst w =
     (let (src', w1) = resolve_src env text src w
      in if src' = dst then (Inr text, w1)
         else
           let request = translation_request text src' dst;
               w2 = w1\<lparr>trace := trace w1 @ [ChatCompletion request]\<rparr>
           in (try_except
                 (case chat_completions_create env request of
                    Inl e \<Rightarrow> Inl e
                  | Inr resp \<Rightarrow>
                      (case resp of
                         [] \<Rightarrow> Inl (IndexError (py ''list index out of range''))
                       | c # cs \<Rightarrow>
                           (case c of
                              None \<Rightarrow> Inr (py ''Translation failed'')
                            | Some s \<Rightarrow>
                                Inr (if s \<noteq> [] then strip s else py ''Translation failed''))))
                 (\<lambda>e. Inr (py ''Translation error: '' @ message e)),
               w2))"

section \<open>Speech\<close>

text \<open>
  In \<open>transcribe_bytes\<close> the \<open>with\<close> block that creates the temporary file (with
  \<open>delete=False\<close>) and writes the bytes stands before the \<open>try\<close>. An exception of the
  creation leaves the function with no file made; an exception of the write leaves it
  with the file on disk, holding what had been written, and the \<open>finally\<close> clause is
  never entered. From the \<open>try\<close> on, the \<open>finally\<close> clause runs after the body
  whatever it produced, and an \<open>OSError\<close> of \<open>os.remove\<close> is passed over.
\<close>

definition transcription_kwargs :: "bytes \<Rightarrow> str \<Rightarrow> stt_request" where
  "transcription_kwargs f lang_hint =
     \<lparr>stt_model = STT_MODEL, stt_file = f,
      stt_language =
        (if lang_hint = py ''vi'' \<or> lang_hint = py ''ja'' then Some lang_hint else None)\<rparr>"

definition transcribe_bytes :: "env \<Rightarrow> bytes \<Rightarrow> str \<Rightarrow> world \<Rightarrow> (exn + str) \<times> world" where
  "transcribe_bytes env wav_bytes lang_hint w =
     (case tmp_create_error env of
        Some m \<Rightarrow> (Inl (OSError m), w)
      | None \<Rightarrow>
          let tmp_path = fresh_path (files w)
          in (case tmp_write_error env wav_bytes of
                Some (m, n) \<Rightarrow>
                  (Inl (OSError m), w\<lparr>files := (tmp_path, take n wav_bytes) # files w\<rparr>)
              | None \<Rightarrow>
                  let w1 = w\<lparr>files := (tmp_path, wav_bytes) # files w\<rparr>;
                      (r, w2) =
                        (case map_of (files w1) tmp_path of
                           None \<Rightarrow> (Inl (OSError (py ''No such file or directory'')), w1)
                         | Some f \<Rightarrow>
                             let kwargs = transcription_kwargs f lang_hint;
                                 w2 = w1\<lparr>trace := trace w1 @ [Transcription kwargs]\<rparr>
                             in (case audio_transcriptions_create env kwargs of
                                   Inl e \<Rightarrow> (Inl e, w2)
                                 | Inr stt_text \<Rightarrow> (Inr (strip stt_text), w2)))
                  in (case os_remove env tmp_path w2 of
                        Inr w3 \<Rightarrow> (r, w3)
                      | Inl (OSError m) \<Rightarrow> (r, w2)
                      | Inl e \<Rightarrow> (Inl e, w2))))"

definition speak :: "env \<Rightarrow> str \<Rightarrow> str \<Rightarrow> str \<Rightarrow> world \<Rightarrow> (exn + bytes \<times> str) \<times> world" where
  "speak env text voice fmt w =
     (if strip text = [] then (Inr ([], py ''audio/mp3''), w)
      else
        let request = \<lparr>speech_model = TTS_MODEL, speech_voice = voice, speech_input = text\<rparr>;
            w1 = w\<lparr>trace := trace w @ [Speech request]\<rparr>
        in (case audio_speech_create env request of
              Inl e \<Rightarrow> (Inl e, w1)
            | Inr raw \<Rightarrow>
                (if fmt = py ''mp3'' then (Inr (raw, py ''audio/mp3''), w1)
                 else
                   (try_except
                      (case from_file env raw of
                         Inl e \<Rightarrow> Inl e
                       | Inr seg \<Rightarrow>
                           (case export env seg of
                              Inl e \<Rightarrow> Inl e
                            | Inr buf \<Rightarrow> Inr (buf, py ''audio/wav'')))
                      (\<lambda>e. Inr (raw, py ''audio/mp3'')),
                    w1))))"

section \<open>Conversation mode\<close>

text \<open>
  One run of the script in conversation mode, with the value \<open>wav_bytes\<close> that the
  recorder widget returned. The result is the audio handed to \<open>st.audio\<close>, if any; the
  rendering of the history is left out.
\<close>

definition conversation_mode ::
    "env \<Rightarrow> bytes option \<Rightarrow> str \<Rightarrow> str \<Rightarrow> world \<Rightarrow> (exn + (bytes \<times> str) option) \<times> world" where
  "conversation_mode env wav_bytes tts_voice audio_format w =
     (let w0 = (if chat w = None then w\<lparr>chat := Some []\<rparr> else w)
      in if wav_bytes = None \<or> wav_bytes = Some [] then (Inr None, w0)
         else
           (case transcribe_bytes env (the wav_bytes) (py ''auto'') w0 of
              (Inl e, w1) \<Rightarrow> (Inl e, w1)
            | (Inr transcript, w1) \<Rightarrow>
                let (detected, w2) = detect_lang_simple env transcript w1;
                    target = (if detected = py ''vi'' then py ''ja'' else py ''vi'')
                in (case translate_text env transcript detected target w2 of
                      (Inl e, w3) \<Rightarrow> (Inl e, w3)
                    | (Inr translation, w3) \<Rightarrow>
                        (case chat w3 of
                           None \<Rightarrow> (Inl (Exception (py ''st.session_state has no attribute chat'')), w3)
                         | Some history \<Rightarrow>
                             let w4 = w3\<lparr>chat := Some (history @
                                        [\<lparr>turn_speaker =
                                            (if length history mod 2 = 0 then py ''A'' else py ''B''),
                                          turn_transcript = transcript,
                                          turn_translation = translation,
                                          turn_src = detected,
                                          turn_dst = target\<rparr>])\<rparr>
                             in (case speak env translation tts_voice audio_format w4 of
                                   (Inl e, w5) \<Rightarrow> (Inl e, w5)
                                 | (Inr (audio_bytes, mime), w5) \<Rightarrow>
                                     (Inr (if audio_bytes \<noteq> [] then Some (audio_bytes, mime)
                                           else None), w5))))))"

section \<open>Observations and sample inputs\<close>

text \<open>The calls to remote endpoints among the recorded events, and the history read as a list.\<close>

fun is_remote :: "event \<Rightarrow> bool" where
  "is_remote (Detect t) = False"
| "is_remote (ChatCompletion r) = True"
| "is_remote (Transcription r) = True"
| "is_remote (Speech r) = True"

definition remote_calls :: "world \<Rightarrow> event list" where
  "remote_calls w = filter is_remote (trace w)"

definition history :: "world \<Rightarrow> turn list" where
  "history w = (case chat w of None \<Rightarrow> [] | Some h \<Rightarrow> h)"

definition world0 :: world where
  "world0 = \<lparr>trace = [], files = [], chat = None\<rparr>"

text \<open>The two texts of the end-to-end scenarios; the seventh character of the second is U+00E0.\<close>

definition konnichiwa :: str where
  "konnichiwa = [0x3053, 0x3093, 0x306B, 0x3061, 0x306F]"

definition xin_chao :: str where
  "xin_chao = py ''Xin ch'' @ [0xE0] @ py ''o''"

text \<open>
  Two kana of the half-width katakana block of Unicode (U+FF66 to U+FF9F): U+FF76
  HALFWIDTH KATAKANA LETTER KA and U+FF85 HALFWIDTH KATAKANA LETTER NA.
\<close>

definition halfwidth_kana :: str where
  "halfwidth_kana = [0xFF76, 0xFF85]"

text \<open>An environment in which every collaborator raises, and one in which each answers.\<close>

definition env_offline :: env where
  "env_offline =
     \<lparr>detect = (\<lambda>t. Inl (Exception (py ''No features in text.''))),
      chat_completions_create = (\<lambda>r. Inl (Exception (py ''Connection error.''))),
      audio_transcriptions_create = (\<lambda>r. Inl (Exception (py ''Connection error.''))),
      audio_speech_create = (\<lambda>r. Inl (Exception (py ''Connection error.''))),
      from_file = (\<lambda>b. Inl (Exception (py ''Decoding failed''))),
      export = (\<lambda>s. Inl (Exception (py ''Encoding failed''))),
      os_remove_error = (\<lambda>p. Some (py ''Permission denied'')),
      tmp_create_error = None,
      tmp_write_error = (\<lambda>b. None)\<rparr>"

definition env_online :: env where
  "env_online =
     \<lparr>detect = (\<lambda>t. Inr (py ''vi'')),
      chat_completions_create = (\<lambda>r. Inr [Some (py '' konnichiwa '')]),
      audio_transcriptions_create = (\<lambda>r. Inr (py ''Xin chao '')),
      audio_speech_create = (\<lambda>r. Inr [1, 2, 3]),
      from_file = (\<lambda>b. Inl (Exception (py ''Decoding failed''))),
      export = (\<lambda>s. Inr s),
      os_remove_error = (\<lambda>p. None),
      tmp_create_error = None,
      tmp_write_error = (\<lambda>b. None)\<rparr>"

text \<open>
  The answering environment on a full disk: the temporary file is created, and the write
  raises with nothing written.
\<close>

definition env_disk_full :: env where
  "env_disk_full = env_online\<lparr>tmp_write_error := (\<lambda>b. Some (py ''No space left on device'', 0))\<rparr>"

text \<open>
  The label that the handler computes from the number of turns already recorded, a
  history whose labels all follow that rule, and a session: the script run once per
  interaction, each run with its own environment, recorder value and sidebar settings,
  the session state carried from one run to the next whether or not the run raised.
\<close>

definition speaker_of :: "nat \<Rightarrow> str" where
  "speaker_of n = (if n mod 2 = 0 then py ''A'' else py ''B'')"

definition labelled_by_parity :: "turn list \<Rightarrow> bool" where
  "labelled_by_parity h \<longleftrightarrow> map turn_speaker h = map speaker_of [0..<length h]"

fun run_session :: "(env \<times> bytes option \<times> str \<times> str) list \<Rightarrow> world \<Rightarrow> world" where
  "run_session [] w = w"
| "run_session ((env, wav_bytes, tts_voice, audio_format) # runs) w =
     run_session runs (snd (conversation_mode env wav_bytes tts_voice audio_format w))"

section \<open>Properties of language detection\<close>

lemma detect_lang_simple_cases:
  "detect_lang_simple env text w = (py ''ja'', w) \<or>
   (\<exists>l. (l = py ''vi'' \<or> l = py ''ja'') \<and>
        detect_lang_simple env text w = (l, w\<lparr>trace := trace w @ [Detect text]\<rparr>))"
  by (auto simp: detect_lang_simple_def Let_def split: sum.splits)

text \<open>
  The first test of \<open>detect_lang_simple\<close> covers two ranges of Unicode only. A text
  whose kana lie in the half-width block passes it by: the identifier is consulted, and
  when it answers \<open>"vi"\<close> that is the result.
\<close>

theorem detect_lang_simple_halfwidth_counterexample:
  "detect_lang_simple env_online (xin_chao @ [0x20] @ halfwidth_kana) world0 =
     (py ''vi'', world0\<lparr>trace := [Detect (xin_chao @ [0x20] @ halfwidth_kana)]\<rparr>)"
  by (simp add: detect_lang_simple_def env_online_def xin_chao_def halfwidth_kana_def
      kana_or_cjk_def world0_def py_def)

text \<open>
  Claim C1, as amended. A text with at least one character in U+3040..U+30FF or in
  U+4E00..U+9FFF makes \<open>detect_lang_simple\<close> return \<open>"ja"\<close>, and the world is the one it
  started from: no call of the statistical identifier has been recorded.
\<close>

theorem detect_lang_simple_kana_cjk:
  assumes "\<exists>ch\<in>set text. (0x3040 \<le> ch \<and> ch \<le> 0x30FF) \<or> (0x4E00 \<le> ch \<and> ch \<le> 0x9FFF)"
  shows "detect_lang_simple env text w = (py ''ja'', w)"
  using assms by (simp add: detect_lang_simple_def list_ex_iff kana_or_cjk_def)

theorem detect_lang_simple_kana_cjk_witness:
  "(\<exists>ch\<in>set (xin_chao @ konnichiwa).
      (0x3040 \<le> ch \<and> ch \<le> 0x30FF) \<or> (0x4E00 \<le> ch \<and> ch \<le> 0x9FFF)) \<and>
   detect_lang_simple env_online (xin_chao @ konnichiwa) world0 = (py ''ja'', world0)"
proof -
  have h: "\<exists>ch\<in>set (xin_chao @ konnichiwa).
      (0x3040 \<le> ch \<and> ch \<le> 0x30FF) \<or> (0x4E00 \<le> ch \<and> ch \<le> 0x9FFF)"
    by (simp add: konnichiwa_def)
  show ?thesis
    using h detect_lang_simple_kana_cjk [OF h] by simp
qed

text \<open>
  Claim C2. For a text without such a character, when the identifier raises or returns a
  code other than \<open>"ja"\<close> and \<open>"vi"\<close>, the result is \<open>"vi"\<close> if every character is below
  128 and \<open>"ja"\<close> otherwise.
\<close>

theorem detect_lang_simple_fallback:
  assumes "\<forall>ch\<in>set text. \<not> kana_or_cjk ch"
    and "(\<exists>e. detect env text = Inl e) \<or>
         (\<exists>lang. detect env text = Inr lang \<and> lang \<noteq> py ''ja'' \<and> lang \<noteq> py ''vi'')"
  shows "fst (detect_lang_simple env text w) =
         (if \<forall>c\<in>set text. c < 128 then py ''vi'' else py ''ja'')"
  using assms
  by (auto simp: detect_lang_simple_def list_ex_iff list_all_iff Let_def)

theorem detect_lang_simple_fallback_witness:
  "\<not> list_ex kana_or_cjk (py ''Hello'') \<and>
   detect env_offline (py ''Hello'') = Inl (Exception (py ''No features in text.'')) \<and>
   fst (detect_lang_simple env_offline (py ''Hello'') world0) = py ''vi'' \<and>
   \<not> list_ex kana_or_cjk xin_chao \<and>
   detect (env_online\<lparr>detect := \<lambda>t. Inr (py ''fr'')\<rparr>) xin_chao = Inr (py ''fr'') \<and>
   fst (detect_lang_simple (env_online\<lparr>detect := \<lambda>t. Inr (py ''fr'')\<rparr>) xin_chao world0) = py ''ja''"
proof -
  have h1: "\<forall>ch\<in>set (py ''Hello''). \<not> kana_or_cjk ch"
    by (simp add: py_def kana_or_cjk_def)
  have h2: "detect env_offline (py ''Hello'') = Inl (Exception (py ''No features in text.''))"
    by (simp add: env_offline_def)
  have a: "\<forall>c\<in>set (py ''Hello''). c < 128"
    by (simp add: py_def)
  have h3: "\<forall>ch\<in>set xin_chao. \<not> kana_or_cjk ch"
    by (simp add: xin_chao_def py_def kana_or_cjk_def)
  have h4: "detect (env_online\<lparr>detect := \<lambda>t. Inr (py ''fr'')\<rparr>) xin_chao = Inr (py ''fr'')"
    by simp
  have n: "py ''fr'' \<noteq> py ''ja'' \<and> py ''fr'' \<noteq> py ''vi''"
    by (simp add: py_def)
  have b: "\<not> (\<forall>c\<in>set xin_chao. c < 128)"
    by (simp add: xin_chao_def py_def)
  show ?thesis
    using h1 h2 a h3 h4 n b
      detect_lang_simple_fallback [of "py ''Hello''" env_offline world0]
      detect_lang_simple_fallback [of xin_chao "env_online\<lparr>detect := \<lambda>t. Inr (py ''fr'')\<rparr>" world0]
    by (auto simp: list_ex_iff)
qed

section \<open>Properties of translation\<close>

lemma resolve_src_explicit: "src \<noteq> py ''auto'' \<Longrightarrow> resolve_src env text src w = (src, w)"
  by (simp add: resolve_src_def)

lemma resolve_src_auto:
  "resolve_src env text (py ''auto'') w = detect_lang_simple env text w"
  using detect_lang_simple_cases [of env "text" w]
  by (auto simp: resolve_src_def)

lemma resolve_src_remote_calls:
  "remote_calls (snd (resolve_src env text src w)) = remote_calls w"
  using detect_lang_simple_cases [of env "text" w]
  by (cases "src = py ''auto''") (auto simp: resolve_src_auto resolve_src_explicit remote_calls_def)

lemma translate_text_noop:
  "fst (resolve_src env text src w) = dst \<Longrightarrow>
   translate_text env text src dst w = (Inr text, snd (resolve_src env text src w))"
  by (cases "resolve_src env text src w") (simp add: translate_text_def)

lemma translate_text_dispatch:
  "fst (resolve_src env text src w) \<noteq> dst \<Longrightarrow>
   translate_text env text src dst w =
     (try_except
        (case chat_completions_create env
                (translation_request text (fst (resolve_src env text src w)) dst) of
           Inl e \<Rightarrow> Inl e
         | Inr resp \<Rightarrow>
             (case resp of
                [] \<Rightarrow> Inl (IndexError (py ''list index out of range''))
              | c # cs \<Rightarrow>
                  (case c of
                     None \<Rightarrow> Inr (py ''Translation failed'')
                   | Some s \<Rightarrow> Inr (if s \<noteq> [] then strip s else py ''Translation failed''))))
        (\<lambda>e. Inr (py ''Translation error: '' @ message e)),
      (snd (resolve_src env text src w))
        \<lparr>trace := trace (snd (resolve_src env text src w)) @
           [ChatCompletion (translation_request text (fst (resolve_src env text src w)) dst)]\<rparr>)"
  by (cases "resolve_src env text src w") (simp add: translate_text_def Let_def)

lemma resolve_src_kana_cjk:
  "\<exists>ch\<in>set text. kana_or_cjk ch \<Longrightarrow> resolve_src env text (py ''auto'') w = (py ''ja'', w)"
  by (simp add: resolve_src_auto detect_lang_simple_def list_ex_iff)

lemma ja_neq_vi: "py ''ja'' \<noteq> py ''vi''"
  by (simp add: py_def)

lemma try_except_handled:
  "(\<And>e. \<exists>v. handler e = Inr v) \<Longrightarrow> \<exists>v. try_except body handler = Inr v"
  by (cases body) (auto simp: try_except_def)

lemma translate_text_returns: "\<exists>s. fst (translate_text env text src dst w) = Inr s"
proof (cases "fst (resolve_src env text src w) = dst")
  case True
  then show ?thesis by (simp add: translate_text_noop)
next
  case False
  then show ?thesis by (simp add: translate_text_dispatch try_except_handled)
qed

text \<open>
  Claim C3. \<open>translate_text(text, s, s)\<close> for \<open>s\<close> one of \<open>"vi"\<close>, \<open>"ja"\<close> returns the text and
  leaves the world as it was; and whenever the resolved source equals the destination,
  the text is returned and no call to a remote endpoint is added.
\<close>

theorem translate_text_same_language:
  "(s = py ''vi'' \<or> s = py ''ja'' \<longrightarrow> translate_text env text s s w = (Inr text, w)) \<and>
   (fst (resolve_src env text src w) = dst \<longrightarrow>
      fst (translate_text env text src dst w) = Inr text \<and>
      remote_calls (snd (translate_text env text src dst w)) = remote_calls w)"
proof (intro conjI impI)
  assume "s = py ''vi'' \<or> s = py ''ja''"
  then have "s \<noteq> py ''auto''" by (auto simp: py_def)
  then show "translate_text env text s s w = (Inr text, w)"
    by (simp add: translate_text_noop resolve_src_explicit)
next
  assume "fst (resolve_src env text src w) = dst"
  then show "fst (translate_text env text src dst w) = Inr text"
    by (simp add: translate_text_noop)
next
  assume "fst (resolve_src env text src w) = dst"
  then show "remote_calls (snd (translate_text env text src dst w)) = remote_calls w"
    by (simp add: translate_text_noop resolve_src_remote_calls)
qed

theorem translate_text_same_language_witness:
  "(py ''vi'' = py ''vi'' \<or> py ''vi'' = py ''ja'') \<and>
   translate_text env_online xin_chao (py ''vi'') (py ''vi'') world0 = (Inr xin_chao, world0) \<and>
   fst (resolve_src env_online xin_chao (py ''auto'') world0) = py ''vi'' \<and>
   fst (translate_text env_online xin_chao (py ''auto'') (py ''vi'') world0) = Inr xin_chao \<and>
   remote_calls (snd (translate_text env_online xin_chao (py ''auto'') (py ''vi'') world0)) = []"
proof -
  have r: "fst (resolve_src env_online xin_chao (py ''auto'') world0) = py ''vi''"
    by (simp add: resolve_src_def detect_lang_simple_def xin_chao_def env_online_def
        kana_or_cjk_def py_def)
  have e: "remote_calls world0 = []"
    by (simp add: remote_calls_def world0_def)
  show ?thesis
    using r e
      translate_text_same_language [of "py ''vi''" env_online xin_chao world0 "py ''auto''" "py ''vi''"]
    by simp
qed

text \<open>
  Two texts made of nothing but kana, or of nothing at all, for which \<open>"auto"\<close> is not
  resolved by the first test. For the empty text the identifier is consulted; when it
  raises, the last line answers \<open>"vi"\<close>. For half-width kana the identifier is consulted
  as well, and when it answers \<open>"vi"\<close> the request to translate into \<open>"ja"\<close> is tagged
  \<open>SRC=vi\<close>.
\<close>

theorem translate_text_auto_counterexample:
  "resolve_src env_offline [] (py ''auto'') world0 = (py ''vi'', world0\<lparr>trace := [Detect []]\<rparr>) \<and>
   trace (snd (resolve_src env_offline halfwidth_kana (py ''auto'') world0)) =
     [Detect halfwidth_kana] \<and>
   trace (snd (translate_text env_online halfwidth_kana (py ''auto'') (py ''ja'') world0)) =
     [Detect halfwidth_kana,
      ChatCompletion (translation_request halfwidth_kana (py ''vi'') (py ''ja''))]"
  by (simp add: translate_text_def resolve_src_def detect_lang_simple_def env_offline_def
      env_online_def halfwidth_kana_def kana_or_cjk_def world0_def try_except_def py_def)

text \<open>
  Claim C4, as amended. For a non-empty text whose characters all lie in U+3040..U+30FF
  or U+4E00..U+9FFF, \<open>"auto"\<close> is resolved to \<open>"ja"\<close> with no call of the identifier; with
  destination \<open>"ja"\<close> the text comes back unchanged, and with destination \<open>"vi"\<close> the one
  event added is the chat request tagged \<open>SRC=ja\<close>, \<open>DST=vi\<close>. The last conjunct is that
  request for the text of the scenario, U+3053 U+3093 U+306B U+3061 U+306F, written out.
\<close>

theorem translate_text_auto_kana_cjk:
  "(text \<noteq> [] \<and>
    (\<forall>ch\<in>set text. (0x3040 \<le> ch \<and> ch \<le> 0x30FF) \<or> (0x4E00 \<le> ch \<and> ch \<le> 0x9FFF)) \<longrightarrow>
      resolve_src env text (py ''auto'') w = (py ''ja'', w) \<and>
      translate_text env text (py ''auto'') (py ''ja'') w = (Inr text, w) \<and>
      snd (translate_text env text (py ''auto'') (py ''vi'') w) =
        w\<lparr>trace := trace w @ [ChatCompletion (translation_request text (py ''ja'') (py ''vi''))]\<rparr>) \<and>
   trace (snd (translate_text env konnichiwa (py ''auto'') (py ''vi'') w)) =
     trace w @
     [ChatCompletion
        \<lparr>model = LLM_MODEL,
         messages =
           [\<lparr>role = py ''system'', content = system_prompt\<rparr>,
            \<lparr>role = py ''user'', content = py ''[SRC=ja] [DST=vi]'' @ [10] @ konnichiwa\<rparr>],
         temperature = 2 / 10\<rparr>]"
proof (intro conjI impI)
  assume a: "text \<noteq> [] \<and>
    (\<forall>ch\<in>set text. (0x3040 \<le> ch \<and> ch \<le> 0x30FF) \<or> (0x4E00 \<le> ch \<and> ch \<le> 0x9FFF))"
  then obtain c cs where "text = c # cs" by (cases "text") auto
  with a have ex: "\<exists>ch\<in>set text. kana_or_cjk ch" by (auto simp: kana_or_cjk_def)
  show r: "resolve_src env text (py ''auto'') w = (py ''ja'', w)"
    using ex by (rule resolve_src_kana_cjk)
  show "translate_text env text (py ''auto'') (py ''ja'') w = (Inr text, w)"
    using r by (simp add: translate_text_noop)
  show "snd (translate_text env text (py ''auto'') (py ''vi'') w) =
        w\<lparr>trace := trace w @ [ChatCompletion (translation_request text (py ''ja'') (py ''vi''))]\<rparr>"
    using r ja_neq_vi by (simp add: translate_text_dispatch)
next
  have "\<exists>ch\<in>set konnichiwa. kana_or_cjk ch"
    by (simp add: konnichiwa_def kana_or_cjk_def)
  then have r: "resolve_src env konnichiwa (py ''auto'') w = (py ''ja'', w)"
    by (rule resolve_src_kana_cjk)
  show "trace (snd (translate_text env konnichiwa (py ''auto'') (py ''vi'') w)) =
     trace w @
     [ChatCompletion
        \<lparr>model = LLM_MODEL,
         messages =
           [\<lparr>role = py ''system'', content = system_prompt\<rparr>,
            \<lparr>role = py ''user'', content = py ''[SRC=ja] [DST=vi]'' @ [10] @ konnichiwa\<rparr>],
         temperature = 2 / 10\<rparr>]"
    using r ja_neq_vi by (simp add: translate_text_dispatch translation_request_def py_def)
qed

theorem translate_text_auto_kana_cjk_witness:
  "konnichiwa \<noteq> [] \<and>
   list_all (\<lambda>ch. (0x3040 \<le> ch \<and> ch \<le> 0x30FF) \<or> (0x4E00 \<le> ch \<and> ch \<le> 0x9FFF)) konnichiwa \<and>
   resolve_src env_online konnichiwa (py ''auto'') world0 = (py ''ja'', world0) \<and>
   translate_text env_online konnichiwa (py ''auto'') (py ''ja'') world0 = (Inr konnichiwa, world0) \<and>
   trace (snd (translate_text env_online konnichiwa (py ''auto'') (py ''vi'') world0)) =
     [ChatCompletion (translation_request konnichiwa (py ''ja'') (py ''vi''))]"
proof -
  have h: "konnichiwa \<noteq> [] \<and>
    (\<forall>ch\<in>set konnichiwa. (0x3040 \<le> ch \<and> ch \<le> 0x30FF) \<or> (0x4E00 \<le> ch \<and> ch \<le> 0x9FFF))"
    by (simp add: konnichiwa_def)
  have t: "trace world0 = []"
    by (simp add: world0_def)
  show ?thesis
    using h t translate_text_auto_kana_cjk [of konnichiwa env_online world0]
    by (simp add: list_all_iff)
qed

text \<open>
  The scenario text \<open>"Xin ch\<dots>o"\<close> has no kana or CJK character, and its seventh
  character U+00E0 is not ASCII. With the identifier failing, the last line of
  \<open>detect_lang_simple\<close> therefore answers \<open>"ja"\<close>, and \<open>translate_text\<close> with destination
  \<open>"ja"\<close> returns the text without a remote call.
\<close>

lemma xin_chao_no_kana: "\<not> list_ex kana_or_cjk xin_chao"
  by (simp add: xin_chao_def py_def kana_or_cjk_def)

lemma xin_chao_not_ascii: "\<not> list_all (\<lambda>c. c < 128) xin_chao"
  by (simp add: xin_chao_def py_def)

theorem xin_chao_fallback_counterexample:
  "fst (detect_lang_simple env_offline xin_chao world0) \<noteq> py ''vi'' \<and>
   remote_calls (snd (translate_text env_offline xin_chao (py ''auto'') (py ''ja'') world0)) = []"
  by (simp add: translate_text_def resolve_src_def detect_lang_simple_def env_offline_def
      xin_chao_def kana_or_cjk_def remote_calls_def world0_def py_def)

text \<open>
  Claim C5, as amended. For this text the detector answers \<open>"vi"\<close> exactly when the
  statistical identifier returns \<open>"vi"\<close>; then \<open>translate_text\<close> from \<open>"auto"\<close> to \<open>"ja"\<close>
  adds the identifier call and one chat request tagged \<open>SRC=vi\<close>, \<open>DST=ja\<close>.
\<close>

theorem xin_chao_auto_to_ja:
  "(fst (detect_lang_simple env xin_chao w) = py ''vi'' \<longleftrightarrow> detect env xin_chao = Inr (py ''vi'')) \<and>
   (detect env xin_chao = Inr (py ''vi'') \<longrightarrow>
      trace (snd (translate_text env xin_chao (py ''auto'') (py ''ja'') w)) =
        trace w @
        [Detect xin_chao,
         ChatCompletion
           \<lparr>model = LLM_MODEL,
            messages =
              [\<lparr>role = py ''system'', content = system_prompt\<rparr>,
               \<lparr>role = py ''user'', content = py ''[SRC=vi] [DST=ja]'' @ [10] @ xin_chao\<rparr>],
            temperature = 2 / 10\<rparr>])"
proof (intro conjI impI)
  show "fst (detect_lang_simple env xin_chao w) = py ''vi'' \<longleftrightarrow> detect env xin_chao = Inr (py ''vi'')"
    using ja_neq_vi
    by (auto simp: detect_lang_simple_def xin_chao_no_kana xin_chao_not_ascii Let_def
        split: sum.splits)
next
  assume d: "detect env xin_chao = Inr (py ''vi'')"
  then have r: "resolve_src env xin_chao (py ''auto'') w =
                (py ''vi'', w\<lparr>trace := trace w @ [Detect xin_chao]\<rparr>)"
    by (simp add: resolve_src_auto detect_lang_simple_def xin_chao_no_kana)
  show "trace (snd (translate_text env xin_chao (py ''auto'') (py ''ja'') w)) =
        trace w @
        [Detect xin_chao,
         ChatCompletion
           \<lparr>model = LLM_MODEL,
            messages =
              [\<lparr>role = py ''system'', content = system_prompt\<rparr>,
               \<lparr>role = py ''user'', content = py ''[SRC=vi] [DST=ja]'' @ [10] @ xin_chao\<rparr>],
            temperature = 2 / 10\<rparr>]"
    using r ja_neq_vi
    by (simp add: translate_text_dispatch translation_request_def py_def)
qed

theorem xin_chao_auto_to_ja_witness:
  "detect env_online xin_chao = Inr (py ''vi'') \<and>
   fst (detect_lang_simple env_online xin_chao world0) = py ''vi'' \<and>
   trace (snd (translate_text env_online xin_chao (py ''auto'') (py ''ja'') world0)) =
     [Detect xin_chao,
      ChatCompletion
        \<lparr>model = LLM_MODEL,
         messages =
           [\<lparr>role = py ''system'', content = system_prompt\<rparr>,
            \<lparr>role = py ''user'', content = py ''[SRC=vi] [DST=ja]'' @ [10] @ xin_chao\<rparr>],
         temperature = 2 / 10\<rparr>]"
proof -
  have d: "detect env_online xin_chao = Inr (py ''vi'')"
    by (simp add: env_online_def)
  have t: "trace world0 = []"
    by (simp add: world0_def)
  show ?thesis
    using d t xin_chao_auto_to_ja [of env_online world0]
    by simp
qed

text \<open>
  Claim C6. \<open>translate_text\<close> always returns a string. When the remote call is reached:
  an exception \<open>e\<close> gives \<open>"Translation error: "\<close> followed by \<open>str(e)\<close>; a response
  without choices gives the same prefix with the message of the \<open>IndexError\<close>; a first
  choice whose content is \<open>None\<close> or empty gives \<open>"Translation failed"\<close>; any other
  content is returned stripped.
\<close>

theorem translate_text_never_raises:
  "(\<exists>s. fst (translate_text env text src dst w) = Inr s) \<and>
   (fst (resolve_src env text src w) \<noteq> dst \<longrightarrow>
      (\<forall>e. chat_completions_create env
              (translation_request text (fst (resolve_src env text src w)) dst) = Inl e \<longrightarrow>
           fst (translate_text env text src dst w) = Inr (py ''Translation error: '' @ message e)) \<and>
      (\<forall>resp. chat_completions_create env
              (translation_request text (fst (resolve_src env text src w)) dst) = Inr resp \<longrightarrow>
           fst (translate_text env text src dst w) =
             (case resp of
                [] \<Rightarrow> Inr (py ''Translation error: list index out of range'')
              | None # cs \<Rightarrow> Inr (py ''Translation failed'')
              | Some s # cs \<Rightarrow> if s = [] then Inr (py ''Translation failed'') else Inr (strip s))))"
proof (intro conjI impI allI)
  show "\<exists>s. fst (translate_text env text src dst w) = Inr s"
    by (rule translate_text_returns)
next
  fix e
  assume "fst (resolve_src env text src w) \<noteq> dst"
    and "chat_completions_create env
           (translation_request text (fst (resolve_src env text src w)) dst) = Inl e"
  then show "fst (translate_text env text src dst w) = Inr (py ''Translation error: '' @ message e)"
    by (simp add: translate_text_dispatch try_except_def)
next
  fix resp
  assume "fst (resolve_src env text src w) \<noteq> dst"
    and "chat_completions_create env
           (translation_request text (fst (resolve_src env text src w)) dst) = Inr resp"
  then show "fst (translate_text env text src dst w) =
             (case resp of
                [] \<Rightarrow> Inr (py ''Translation error: list index out of range'')
              | None # cs \<Rightarrow> Inr (py ''Translation failed'')
              | Some s # cs \<Rightarrow> if s = [] then Inr (py ''Translation failed'') else Inr (strip s))"
    by (simp add: translate_text_dispatch try_except_def py_def split: list.splits option.splits)
qed

theorem translate_text_never_raises_witness:
  "fst (resolve_src env_online xin_chao (py ''auto'') world0) \<noteq> py ''ja'' \<and>
   fst (translate_text env_online xin_chao (py ''auto'') (py ''ja'') world0) = Inr (py ''konnichiwa'') \<and>
   fst (resolve_src env_offline xin_chao (py ''vi'') world0) \<noteq> py ''ja'' \<and>
   fst (translate_text env_offline xin_chao (py ''vi'') (py ''ja'') world0) =
     Inr (py ''Translation error: Connection error.'')"
proof -
  have r1: "fst (resolve_src env_online xin_chao (py ''auto'') world0) = py ''vi''"
    by (simp add: resolve_src_def detect_lang_simple_def xin_chao_def env_online_def
        kana_or_cjk_def py_def)
  have c1: "chat_completions_create env_online (translation_request xin_chao (py ''vi'') (py ''ja''))
            = Inr [Some (py '' konnichiwa '')]"
    by (simp add: env_online_def)
  have s1: "strip (py '' konnichiwa '') = py ''konnichiwa''"
    by (simp add: strip_def isspace_def py_def)
  have n1: "py '' konnichiwa '' \<noteq> []"
    by (simp add: py_def)
  have r2: "fst (resolve_src env_offline xin_chao (py ''vi'') world0) = py ''vi''"
    by (simp add: resolve_src_def py_def)
  have c2: "chat_completions_create env_offline (translation_request xin_chao (py ''vi'') (py ''ja''))
            = Inl (Exception (py ''Connection error.''))"
    by (simp add: env_offline_def)
  have m: "py ''Translation error: '' @ py ''Connection error.'' = py ''Translation error: Connection error.''"
    by (simp add: py_def)
  have d: "py ''vi'' \<noteq> py ''ja''"
    by (simp add: py_def)
  show ?thesis
    using translate_text_never_raises [of env_online xin_chao "py ''auto''" "py ''ja''" world0]
      translate_text_never_raises [of env_offline xin_chao "py ''vi''" "py ''ja''" world0]
      r1 c1 s1 n1 r2 c2 m d
    by simp
qed

section \<open>Properties of the speech functions\<close>

lemma max_path_ge: "(p, b) \<in> set fs \<Longrightarrow> p \<le> max_path fs"
  by (induction fs) auto

lemma fresh_path_fresh: "fresh_path fs \<notin> fst ` set fs"
  using max_path_ge [of "fresh_path fs" _ fs]
  by (auto simp: fresh_path_def)

lemma filter_fresh_path: "filter (\<lambda>(q, b). q \<noteq> fresh_path fs) fs = fs"
proof -
  have "\<forall>x\<in>set fs. (\<lambda>(q, b). q \<noteq> fresh_path fs) x"
    using fresh_path_fresh [of fs] by force
  then show ?thesis by (simp add: filter_id_conv)
qed

lemma transcribe_bytes_explicit:
  assumes "tmp_create_error env = None" and "tmp_write_error env wav_bytes = None"
  shows "transcribe_bytes env wav_bytes lang_hint w =
     ((case audio_transcriptions_create env (transcription_kwargs wav_bytes lang_hint) of
         Inl e \<Rightarrow> Inl e
       | Inr stt_text \<Rightarrow> Inr (strip stt_text)),
      w\<lparr>trace := trace w @ [Transcription (transcription_kwargs wav_bytes lang_hint)],
        files := (case os_remove_error env (fresh_path (files w)) of
                    None \<Rightarrow> files w
                  | Some m \<Rightarrow> (fresh_path (files w), wav_bytes) # files w)\<rparr>)"
  using assms
  by (simp add: transcribe_bytes_def os_remove_def Let_def filter_fresh_path
      split: sum.splits option.splits)

lemma transcribe_bytes_write_failure:
  assumes "tmp_create_error env = None" and "tmp_write_error env wav_bytes = Some (m, n)"
  shows "transcribe_bytes env wav_bytes lang_hint w =
     (Inl (OSError m), w\<lparr>files := (fresh_path (files w), take n wav_bytes) # files w\<rparr>)"
  using assms by (simp add: transcribe_bytes_def)

lemma transcribe_bytes_create_failure:
  "tmp_create_error env = Some m \<Longrightarrow> transcribe_bytes env wav_bytes lang_hint w = (Inl (OSError m), w)"
  by (simp add: transcribe_bytes_def)

text \<open>
  Once the temporary file has been written, cleanup is as the \<open>finally\<close> clause intends:
  whether the transcription call raises or returns, that outcome is passed on, also when
  \<open>os.remove\<close> fails; when \<open>os.remove\<close> does not fail the files afterwards are the files
  before, and when it fails the temporary file is what remains in addition.
\<close>

lemma transcribe_bytes_after_write:
  assumes "tmp_create_error env = None" and "tmp_write_error env wav_bytes = None"
  shows "(\<forall>e. audio_transcriptions_create env (transcription_kwargs wav_bytes lang_hint) = Inl e \<longrightarrow>
        fst (transcribe_bytes env wav_bytes lang_hint w) = Inl e) \<and>
   (\<forall>t. audio_transcriptions_create env (transcription_kwargs wav_bytes lang_hint) = Inr t \<longrightarrow>
        fst (transcribe_bytes env wav_bytes lang_hint w) = Inr (strip t)) \<and>
   (os_remove_error env (fresh_path (files w)) = None \<longrightarrow>
        files (snd (transcribe_bytes env wav_bytes lang_hint w)) = files w) \<and>
   (os_remove_error env (fresh_path (files w)) \<noteq> None \<longrightarrow>
        files (snd (transcribe_bytes env wav_bytes lang_hint w)) =
          (fresh_path (files w), wav_bytes) # files w) \<and>
   fresh_path (files w) \<notin> fst ` set (files w)"
  using assms by (auto simp: transcribe_bytes_explicit fresh_path_fresh)

text \<open>
  Claim C7. The claim does not hold of the program on the path where the write to the
  temporary file raises: the function is left before the \<open>try\<close>, nothing removes the
  file, and no transcription call is made. Here the disk is full, the recording is
  the two bytes 1 and 2, and the file named 1 is left behind, empty.
\<close>

theorem transcribe_bytes_leaves_file:
  "transcribe_bytes env_disk_full [1, 2] (py ''auto'') world0 =
     (Inl (OSError (py ''No space left on device'')), world0\<lparr>files := [(1, [])]\<rparr>)"
  by (simp add: transcribe_bytes_def env_disk_full_def env_online_def world0_def fresh_path_def)

text \<open>
  Claim C8. \<open>speak\<close> on the empty text returns empty bytes with \<open>"audio/mp3"\<close> for every
  voice and format, and the world is unchanged: no synthesis call is recorded.
\<close>

theorem speak_empty_text:
  "speak env [] voice fmt w = (Inr ([], py ''audio/mp3''), w)"
  by (simp add: speak_def strip_def)

theorem speak_empty_text_witness:
  "speak env_online [] (py ''verse'') (py ''wav'') world0 = (Inr ([], py ''audio/mp3''), world0)"
  using speak_empty_text [of env_online "py ''verse''" "py ''wav''" world0] by simp

text \<open>
  Claim C9. When the text is not blank, the format is not \<open>"mp3"\<close>, the synthesis call
  returns \<open>raw\<close>, and decoding or exporting raises, \<open>speak\<close> returns \<open>raw\<close> with
  \<open>"audio/mp3"\<close>.
\<close>

theorem speak_conversion_failure:
  assumes "strip text \<noteq> []"
    and "fmt \<noteq> py ''mp3''"
    and "audio_speech_create env
           \<lparr>speech_model = TTS_MODEL, speech_voice = voice, speech_input = text\<rparr> = Inr raw"
    and "(\<exists>e. from_file env raw = Inl e) \<or>
         (\<exists>seg e. from_file env raw = Inr seg \<and> export env seg = Inl e)"
  shows "fst (speak env text voice fmt w) = Inr (raw, py ''audio/mp3'')"
  using assms
  by (auto simp: speak_def Let_def try_except_def)

theorem speak_conversion_failure_witness:
  "strip (py ''konnichiwa'') \<noteq> [] \<and> py ''wav'' \<noteq> py ''mp3'' \<and>
   audio_speech_create env_online
     \<lparr>speech_model = TTS_MODEL, speech_voice = py ''alloy'', speech_input = py ''konnichiwa''\<rparr> =
     Inr [1, 2, 3] \<and>
   from_file env_online [1, 2, 3] = Inl (Exception (py ''Decoding failed'')) \<and>
   fst (speak env_online (py ''konnichiwa'') (py ''alloy'') (py ''wav'') world0) =
     Inr ([1, 2, 3], py ''audio/mp3'')"
proof -
  have a: "strip (py ''konnichiwa'') \<noteq> []"
    by (simp add: strip_def isspace_def py_def)
  have b: "py ''wav'' \<noteq> py ''mp3''"
    by (simp add: py_def)
  have c: "audio_speech_create env_online
     \<lparr>speech_model = TTS_MODEL, speech_voice = py ''alloy'', speech_input = py ''konnichiwa''\<rparr> =
     Inr [1, 2, 3]"
    by (simp add: env_online_def)
  have d: "from_file env_online [1, 2, 3] = Inl (Exception (py ''Decoding failed''))"
    by (simp add: env_online_def)
  show ?thesis
    using a b c d
      speak_conversion_failure [of "py ''konnichiwa''" "py ''wav''" env_online "py ''alloy''" "[1, 2, 3]" world0]
    by simp
qed

section \<open>Properties of conversation mode\<close>

lemma detect_lang_simple_chat: "chat (snd (detect_lang_simple env text w)) = chat w"
  using detect_lang_simple_cases [of env "text" w] by auto

lemma resolve_src_chat: "chat (snd (resolve_src env text src w)) = chat w"
  by (cases "src = py ''auto''") (simp_all add: resolve_src_auto resolve_src_explicit detect_lang_simple_chat)

lemma translate_text_chat: "chat (snd (translate_text env text src dst w)) = chat w"
  by (cases "fst (resolve_src env text src w) = dst")
    (simp_all add: translate_text_noop translate_text_dispatch resolve_src_chat)

lemma transcribe_bytes_chat: "chat (snd (transcribe_bytes env wav_bytes lang_hint w)) = chat w"
proof (cases "tmp_create_error env")
  case (Some m)
  then show ?thesis by (simp add: transcribe_bytes_create_failure)
next
  case None
  show ?thesis
  proof (cases "tmp_write_error env wav_bytes")
    case (Some mn)
    with None show ?thesis
      by (cases mn) (simp add: transcribe_bytes_write_failure)
  next
    case write_ok: None
    with None show ?thesis by (simp add: transcribe_bytes_explicit)
  qed
qed

lemma speak_chat: "chat (snd (speak env text voice fmt w)) = chat w"
  by (simp add: speak_def Let_def split: sum.splits)

lemma conversation_mode_step:
  "history (snd (conversation_mode env wav_bytes tts_voice audio_format w)) = history w \<or>
   (\<exists>t. history (snd (conversation_mode env wav_bytes tts_voice audio_format w)) = history w @ [t] \<and>
        turn_speaker t = (if length (history w) mod 2 = 0 then py ''A'' else py ''B''))"
proof -
  define w0 where "w0 = (if chat w = None then w\<lparr>chat := Some []\<rparr> else w)"
  have c0: "chat w0 = Some (history w)"
    by (auto simp: w0_def history_def)
  show ?thesis
  proof (cases "wav_bytes = None \<or> wav_bytes = Some []")
    case True
    then have "snd (conversation_mode env wav_bytes tts_voice audio_format w) = w0"
      by (auto simp: conversation_mode_def w0_def)
    then show ?thesis using c0 by (simp add: history_def)
  next
    case False
    obtain r1 w1 where t: "transcribe_bytes env (the wav_bytes) (py ''auto'') w0 = (r1, w1)"
      by (cases "transcribe_bytes env (the wav_bytes) (py ''auto'') w0")
    have c1: "chat w1 = Some (history w)"
      using transcribe_bytes_chat [of env "the wav_bytes" "py ''auto''" w0] t c0 by simp
    show ?thesis
    proof (cases r1)
      case (Inl e)
      then have "snd (conversation_mode env wav_bytes tts_voice audio_format w) = w1"
        using False t by (auto simp: conversation_mode_def w0_def [symmetric])
      then show ?thesis using c1 by (simp add: history_def)
    next
      case (Inr transcript)
      obtain detected w2 where d: "detect_lang_simple env transcript w1 = (detected, w2)"
        by (cases "detect_lang_simple env transcript w1")
      have c2: "chat w2 = Some (history w)"
        using detect_lang_simple_chat [of env transcript w1] d c1 by simp
      define target where "target = (if detected = py ''vi'' then py ''ja'' else py ''vi'')"
      obtain r3 w3 where tr: "translate_text env transcript detected target w2 = (r3, w3)"
        by (cases "translate_text env transcript detected target w2")
      have c3: "chat w3 = Some (history w)"
        using translate_text_chat [of env transcript detected target w2] tr c2 by simp
      show ?thesis
      proof (cases r3)
        case (Inl e)
        then have "snd (conversation_mode env wav_bytes tts_voice audio_format w) = w3"
          using False t Inr d tr
          by (auto simp: conversation_mode_def w0_def [symmetric] target_def [symmetric])
        then show ?thesis using c3 by (simp add: history_def)
      next
        case translation: (Inr translation)
        define new where "new =
          \<lparr>turn_speaker = (if length (history w) mod 2 = 0 then py ''A'' else py ''B''),
           turn_transcript = transcript, turn_translation = translation,
           turn_src = detected, turn_dst = target\<rparr>"
        define w4 where "w4 = w3\<lparr>chat := Some (history w @ [new])\<rparr>"
        have "snd (conversation_mode env wav_bytes tts_voice audio_format w) =
              snd (speak env translation tts_voice audio_format w4)"
          using False t Inr d tr translation c3
          by (auto simp: conversation_mode_def w0_def [symmetric] target_def [symmetric]
              new_def w4_def split: prod.splits sum.splits)
        then have "chat (snd (conversation_mode env wav_bytes tts_voice audio_format w)) =
                   Some (history w @ [new])"
          by (simp add: speak_chat w4_def)
        then show ?thesis
          by (auto simp: history_def new_def)
      qed
    qed
  qed
qed

lemma conversation_mode_appends:
  assumes "wav_bytes = Some b" and "b \<noteq> []"
    and "tmp_create_error env = None" and "tmp_write_error env b = None"
    and "audio_transcriptions_create env (transcription_kwargs b (py ''auto'')) = Inr stt_text"
  shows "length (history (snd (conversation_mode env wav_bytes tts_voice audio_format w))) =
         Suc (length (history w))"
proof -
  define w0 where "w0 = (if chat w = None then w\<lparr>chat := Some []\<rparr> else w)"
  have c0: "chat w0 = Some (history w)"
    by (auto simp: w0_def history_def)
  obtain w1 where t: "transcribe_bytes env b (py ''auto'') w0 = (Inr (strip stt_text), w1)"
    using assms(3,4,5) by (simp add: transcribe_bytes_explicit)
  have c1: "chat w1 = Some (history w)"
    using transcribe_bytes_chat [of env b "py ''auto''" w0] t c0 by simp
  obtain detected w2 where d: "detect_lang_simple env (strip stt_text) w1 = (detected, w2)"
    by (cases "detect_lang_simple env (strip stt_text) w1")
  have c2: "chat w2 = Some (history w)"
    using detect_lang_simple_chat [of env "strip stt_text" w1] d c1 by simp
  define target where "target = (if detected = py ''vi'' then py ''ja'' else py ''vi'')"
  obtain translation w3
    where tr: "translate_text env (strip stt_text) detected target w2 = (Inr translation, w3)"
    using translate_text_returns [of env "strip stt_text" detected target w2]
    by (cases "translate_text env (strip stt_text) detected target w2") auto
  have c3: "chat w3 = Some (history w)"
    using translate_text_chat [of env "strip stt_text" detected target w2] tr c2 by simp
  define new where "new =
    \<lparr>turn_speaker = (if length (history w) mod 2 = 0 then py ''A'' else py ''B''),
     turn_transcript = strip stt_text, turn_translation = translation,
     turn_src = detected, turn_dst = target\<rparr>"
  define w4 where "w4 = w3\<lparr>chat := Some (history w @ [new])\<rparr>"
  have "snd (conversation_mode env wav_bytes tts_voice audio_format w) =
        snd (speak env translation tts_voice audio_format w4)"
    using assms(1,2) t d tr c3
    by (auto simp: conversation_mode_def w0_def [symmetric] target_def [symmetric]
        new_def w4_def split: prod.splits sum.splits)
  then have "chat (snd (conversation_mode env wav_bytes tts_voice audio_format w)) =
             Some (history w @ [new])"
    by (simp add: speak_chat w4_def)
  then show ?thesis
    by (simp add: history_def)
qed

lemma conversation_mode_online:
  "length (history (snd (conversation_mode env_online (Some [b]) tts_voice audio_format w))) =
   Suc (length (history w))"
  by (rule conversation_mode_appends [where b = "[b]" and stt_text = "py ''Xin chao ''"])
    (simp_all add: env_online_def)

lemma labelled_by_parity_snoc:
  "labelled_by_parity h \<Longrightarrow> turn_speaker t = speaker_of (length h) \<Longrightarrow> labelled_by_parity (h @ [t])"
  by (simp add: labelled_by_parity_def)

lemma conversation_mode_labelled:
  "labelled_by_parity (history w) \<Longrightarrow>
   labelled_by_parity (history (snd (conversation_mode env wav_bytes tts_voice audio_format w)))"
  using conversation_mode_step [of env wav_bytes tts_voice audio_format w]
  by (auto simp: labelled_by_parity_snoc speaker_of_def)

lemma run_session_labelled:
  "labelled_by_parity (history w) \<Longrightarrow> labelled_by_parity (history (run_session runs w))"
  by (induction runs arbitrary: w) (auto simp: conversation_mode_labelled)

lemma labelled_three:
  "labelled_by_parity h \<Longrightarrow> length h = 3 \<Longrightarrow> map turn_speaker h = [py ''A'', py ''B'', py ''A'']"
  by (simp add: labelled_by_parity_def speaker_of_def numeral_3_eq_3)

text \<open>
  Claim C10. One run in conversation mode leaves the history as it is or appends exactly
  one turn, labelled \<open>"A"\<close> when the number of turns before it is even and \<open>"B"\<close> when it
  is odd; it appends when audio was recorded, the temporary file was written and the
  transcription call returned. Hence
  the labels of a history follow the parity of the positions through any session, and a
  session that starts from the empty history and ends with three turns has the labels
  A, B, A.
\<close>

theorem conversation_mode_speaker_parity:
  "(history (snd (conversation_mode env wav_bytes tts_voice audio_format w)) = history w \<or>
    (\<exists>t. history (snd (conversation_mode env wav_bytes tts_voice audio_format w)) = history w @ [t] \<and>
         turn_speaker t = (if length (history w) mod 2 = 0 then py ''A'' else py ''B''))) \<and>
   (wav_bytes = Some b \<and> b \<noteq> [] \<and>
    tmp_create_error env = None \<and> tmp_write_error env b = None \<and>
    audio_transcriptions_create env (transcription_kwargs b (py ''auto'')) = Inr stt_text \<longrightarrow>
      length (history (snd (conversation_mode env wav_bytes tts_voice audio_format w))) =
        Suc (length (history w))) \<and>
   (labelled_by_parity (history w) \<longrightarrow> labelled_by_parity (history (run_session runs w))) \<and>
   (history w = [] \<and> length (history (run_session runs w)) = 3 \<longrightarrow>
      map turn_speaker (history (run_session runs w)) = [py ''A'', py ''B'', py ''A''])"
proof (intro conjI impI)
  show "history (snd (conversation_mode env wav_bytes tts_voice audio_format w)) = history w \<or>
    (\<exists>t. history (snd (conversation_mode env wav_bytes tts_voice audio_format w)) = history w @ [t] \<and>
         turn_speaker t = (if length (history w) mod 2 = 0 then py ''A'' else py ''B''))"
    by (rule conversation_mode_step)
next
  assume "wav_bytes = Some b \<and> b \<noteq> [] \<and>
    tmp_create_error env = None \<and> tmp_write_error env b = None \<and>
    audio_transcriptions_create env (transcription_kwargs b (py ''auto'')) = Inr stt_text"
  then show "length (history (snd (conversation_mode env wav_bytes tts_voice audio_format w))) =
        Suc (length (history w))"
    by (simp add: conversation_mode_appends)
next
  assume "labelled_by_parity (history w)"
  then show "labelled_by_parity (history (run_session runs w))"
    by (rule run_session_labelled)
next
  assume a: "history w = [] \<and> length (history (run_session runs w)) = 3"
  then have "labelled_by_parity (history w)"
    by (simp add: labelled_by_parity_def)
  then have "labelled_by_parity (history (run_session runs w))"
    by (rule run_session_labelled)
  with a show "map turn_speaker (history (run_session runs w)) = [py ''A'', py ''B'', py ''A'']"
    by (simp add: labelled_three)
qed

theorem conversation_mode_speaker_parity_witness:
  "history world0 = [] \<and> labelled_by_parity (history world0) \<and>
   length (history (run_session
      [(env_online, Some [1], py ''alloy'', py ''mp3''),
       (env_online, Some [2], py ''alloy'', py ''mp3''),
       (env_online, Some [3], py ''alloy'', py ''mp3'')] world0)) = 3 \<and>
   map turn_speaker (history (run_session
      [(env_online, Some [1], py ''alloy'', py ''mp3''),
       (env_online, Some [2], py ''alloy'', py ''mp3''),
       (env_online, Some [3], py ''alloy'', py ''mp3'')] world0)) = [py ''A'', py ''B'', py ''A'']"
proof -
  have h: "history world0 = []"
    by (simp add: history_def world0_def)
  have l: "labelled_by_parity (history world0)"
    by (simp add: h labelled_by_parity_def)
  have n: "length (history (run_session
      [(env_online, Some [1], py ''alloy'', py ''mp3''),
       (env_online, Some [2], py ''alloy'', py ''mp3''),
       (env_online, Some [3], py ''alloy'', py ''mp3'')] world0)) = 3"
    by (simp add: conversation_mode_online h)
  show ?thesis
    using h l n
      conversation_mode_speaker_parity [of env_online "Some [1]" "py ''alloy''" "py ''mp3''" world0 _ _
        "[(env_online, Some [1], py ''alloy'', py ''mp3''),
          (env_online, Some [2], py ''alloy'', py ''mp3''),
          (env_online, Some [3], py ''alloy'', py ''mp3'')]"]
    by simp
qed

end
